theory Spec2Isabelle
  imports Complex_Main
begin

section \<open>The ingredient service: data model\<close>

text \<open>
  The development embeds \<^verbatim>\<open>Backend/IngredientServices/routers/ingredients.py\<close>: the
  status classifier \<^verbatim>\<open>get_status\<close>, the token validator
  \<^verbatim>\<open>validate_token_and_roles\<close> and the four endpoints over the table
  \<^verbatim>\<open>Ingredients\<close>.
\<close>

subsection \<open>Python values\<close>

text \<open>
  A Python \<^verbatim>\<open>float\<close> is a finite double, an infinity or a NaN. Every finite double
  is a real number, and the classifier only compares the amount with the constants
  \<^verbatim>\<open>0\<close>, \<^verbatim>\<open>0.5\<close>, \<^verbatim>\<open>1\<close>, \<^verbatim>\<open>50\<close> and \<^verbatim>\<open>100\<close>, which are
  doubles themselves, so each comparison of the code is the comparison of the two real
  numbers. A comparison with a NaN operand is false.
\<close>

datatype pyfloat = Finite real | PosInf | NegInf | NaN

fun float_le :: "pyfloat \<Rightarrow> pyfloat \<Rightarrow> bool" where
  "float_le NaN _ = False"
| "float_le _ NaN = False"
| "float_le NegInf _ = True"
| "float_le _ PosInf = True"
| "float_le (Finite x) (Finite y) = (x \<le> y)"
| "float_le (Finite _) NegInf = False"
| "float_le PosInf (Finite _) = False"
| "float_le PosInf NegInf = False"

text \<open>
  A Python \<^verbatim>\<open>str\<close> is kept as the bytes of its UTF-8 encoding, so it consists of
  ASCII characters exactly when every byte is below 128. On such a string
  \<^verbatim>\<open>str.lower()\<close> turns the letters \<^verbatim>\<open>A\<close> to \<^verbatim>\<open>Z\<close> into \<^verbatim>\<open>a\<close> to \<^verbatim>\<open>z\<close>
  and leaves every other character. On any other string it follows the case mappings of
  the Unicode database, which is outside the program: the parameter
  \<open>unicode_lower\<close> stands for \<^verbatim>\<open>str.lower()\<close> on the strings that are not ASCII,
  and every property below holds whatever it is.
\<close>

definition to_lower :: "char \<Rightarrow> char" where
  "to_lower c =
     (let n = (of_char c :: nat) in if 65 \<le> n \<and> n \<le> 90 then char_of (n + 32) else c)"

definition is_ascii :: "string \<Rightarrow> bool" where
  "is_ascii s = list_all (\<lambda>c. (of_char c :: nat) < 128) s"

definition lower :: "(string \<Rightarrow> string) \<Rightarrow> string \<Rightarrow> string" where
  "lower unicode_lower s = (if is_ascii s then map to_lower s else unicode_lower s)"

text \<open>\<^verbatim>\<open>d.get(key, default)\<close> on a dictionary.\<close>

definition dict_get :: "('k \<rightharpoonup> 'v) \<Rightarrow> 'k \<Rightarrow> 'v \<Rightarrow> 'v" where
  "dict_get d k dflt = (case d k of None \<Rightarrow> dflt | Some v \<Rightarrow> v)"

text \<open>\<^verbatim>\<open>str(n)\<close> for a natural number: its decimal digits.\<close>

fun str_nat :: "nat \<Rightarrow> string" where
  "str_nat n =
     (if n < 10 then [char_of (48 + n)]
      else str_nat (n div 10) @ [char_of (48 + n mod 10)])"

declare str_nat.simps [simp del]

subsection \<open>The status classifier\<close>

text \<open>
  \<^verbatim>\<open>
  thresholds = {"g": 50, "kg": 0.5, "ml": 100, "l": 0.5}

  def get_status(amount: float, measurement: str):
      meas_lower = (measurement or "").lower()
      if amount <= 0: return "Not Available"
      if amount <= thresholds.get(meas_lower, 1): return "Low Stock"
      return "Available"
  \<close>
  The measurement may be \<^verbatim>\<open>None\<close>, which \<^verbatim>\<open>measurement or ""\<close> turns into the
  empty string.
\<close>

definition thresholds :: "string \<rightharpoonup> real" where
  "thresholds = [''g'' \<mapsto> 50, ''kg'' \<mapsto> 0.5, ''ml'' \<mapsto> 100, ''l'' \<mapsto> 0.5]"

definition get_status :: "(string \<Rightarrow> string) \<Rightarrow> pyfloat \<Rightarrow> string option \<Rightarrow> string" where
  "get_status unicode_lower amount measurement =
     (let meas_lower = lower unicode_lower (case measurement of None \<Rightarrow> '''' | Some m \<Rightarrow> m)
      in if float_le amount (Finite 0) then ''Not Available''
         else if float_le amount (Finite (dict_get thresholds meas_lower 1)) then ''Low Stock''
         else ''Available'')"

text \<open>
  The classifier as the specification words it: a table of thresholds for the units g,
  kg, ml and l, 1 for every other unit, and the three labels. The unit is matched
  without regard to case: an ASCII unit matches a unit of the table when it is one of
  its spellings in small and capital letters, and any other unit when lower-casing
  gives the unit of the table.
\<close>

definition unit_is :: "(string \<Rightarrow> string) \<Rightarrow> string \<Rightarrow> string list \<Rightarrow> string \<Rightarrow> bool" where
  "unit_is unicode_lower unit spellings key =
     (if is_ascii unit then unit \<in> set spellings else unicode_lower unit = key)"

definition spec_threshold :: "(string \<Rightarrow> string) \<Rightarrow> string \<Rightarrow> real" where
  "spec_threshold unicode_lower unit =
     (if unit_is unicode_lower unit [''g'', ''G''] ''g'' then 50
      else if unit_is unicode_lower unit [''kg'', ''kG'', ''Kg'', ''KG''] ''kg'' then 0.5
      else if unit_is unicode_lower unit [''ml'', ''mL'', ''Ml'', ''ML''] ''ml'' then 100
      else if unit_is unicode_lower unit [''l'', ''L''] ''l'' then 0.5
      else 1)"

definition spec_classify :: "(string \<Rightarrow> string) \<Rightarrow> pyfloat \<Rightarrow> string \<Rightarrow> string" where
  "spec_classify unicode_lower amount unit =
     (if float_le amount (Finite 0) then ''Not Available''
      else if float_le amount (Finite (spec_threshold unicode_lower unit)) then ''Low Stock''
      else ''Available'')"

subsection \<open>The token validator\<close>

text \<open>
  The validator sends the token to the identity service and reads the reply. The
  service is outside the program, so it is a parameter \<open>user_service\<close>: the outcome of
  the \<^verbatim>\<open>GET\<close> for a token, which is either a response or an
  \<^verbatim>\<open>httpx.RequestError\<close> (no connection, a timeout) with its text.

  Of a response the code reads the status code, the decoded body \<^verbatim>\<open>response.json()\<close>
  and the raw body \<^verbatim>\<open>response.text\<close>. The decoded body is a dictionary, another JSON
  value (on which \<^verbatim>\<open>.get\<close> raises \<^verbatim>\<open>AttributeError\<close>), or decoding raises. Of a
  value in the dictionary the code uses its equality with a string and its \<^verbatim>\<open>str()\<close>
  text, so a value is \<^verbatim>\<open>None\<close>, a string, or anything else given by that text.
  \<^verbatim>\<open>raise_for_status()\<close> raises \<^verbatim>\<open>httpx.HTTPStatusError\<close> for every status that is
  not a success (2xx).
\<close>

datatype pyval = PyNone | PyStr string | PyOther string

fun py_str :: "pyval \<Rightarrow> string" where
  "py_str PyNone = ''None''"
| "py_str (PyStr s) = s"
| "py_str (PyOther s) = s"

text \<open>\<^verbatim>\<open>v in roles\<close> for a list of strings: only a string equals a string.\<close>

fun py_in :: "pyval \<Rightarrow> string list \<Rightarrow> bool" where
  "py_in (PyStr s) roles = (s \<in> set roles)"
| "py_in PyNone roles = False"
| "py_in (PyOther s) roles = False"

datatype json_body = JsonObject "string \<rightharpoonup> pyval" | JsonOther | NotJson

record response =
  status_code :: nat
  json :: json_body
  text_body :: string

datatype auth_reply = Response response | RequestError string

datatype error = HTTPException nat string | Unhandled string

definition is_success :: "response \<Rightarrow> bool" where
  "is_success r = (200 \<le> status_code r \<and> status_code r \<le> 299)"

text \<open>
  \<^verbatim>\<open>
  try:
      response = await client.get(USER_SERVICE_ME_URL, headers=...)
      response.raise_for_status()
  except httpx.HTTPStatusError as e:
      error_detail = f"Ingredients Auth service error: {e.response.status_code}"
      try: error_detail += f" - {e.response.json().get('detail', e.response.text)}"
      except: error_detail += f" - {e.response.text}"
      raise HTTPException(status_code=e.response.status_code, detail=error_detail)
  except httpx.RequestError as e:
      raise HTTPException(status_code=503, detail=f"Ingredients Auth service unavailable: {e}")
  user_data = response.json()
  user_role = user_data.get("userRole")
  if user_role not in allowed_roles:
      raise HTTPException(status_code=403,
          detail=f"Access denied. Required role not met. User has role: '{user_role}'")
  \<close>
\<close>

definition error_detail :: "response \<Rightarrow> string" where
  "error_detail r =
     ''Ingredients Auth service error: '' @ str_nat (status_code r) @ '' - '' @
     (case json r of
        JsonObject d \<Rightarrow> py_str (dict_get d ''detail'' (PyStr (text_body r)))
      | JsonOther \<Rightarrow> text_body r
      | NotJson \<Rightarrow> text_body r)"

definition validate_token_and_roles ::
  "(string \<Rightarrow> auth_reply) \<Rightarrow> string \<Rightarrow> string list \<Rightarrow> error + unit" where
  "validate_token_and_roles user_service token allowed_roles =
     (case user_service token of
        RequestError e \<Rightarrow>
          Inl (HTTPException 503 (''Ingredients Auth service unavailable: '' @ e))
      | Response r \<Rightarrow>
          if \<not> is_success r then Inl (HTTPException (status_code r) (error_detail r))
          else
            (case json r of
               NotJson \<Rightarrow> Inl (Unhandled ''JSONDecodeError'')
             | JsonOther \<Rightarrow> Inl (Unhandled ''AttributeError'')
             | JsonObject user_data \<Rightarrow>
                 let user_role = dict_get user_data ''userRole'' PyNone
                 in if \<not> py_in user_role allowed_roles
                    then Inl (HTTPException 403
                           (''Access denied. Required role not met. User has role: '' @
                            [CHR 0x27] @ py_str user_role @ [CHR 0x27]))
                    else Inr ()))"

subsection \<open>The table and the database connection\<close>

text \<open>
  The request models \<^verbatim>\<open>IngredientCreate\<close> and \<^verbatim>\<open>IngredientUpdate\<close> have the same
  five fields; \<^verbatim>\<open>IngredientOut\<close> has these and the identifier and the status. A row
  of the table \<^verbatim>\<open>Ingredients\<close> is kept in the shape every \<^verbatim>\<open>SELECT\<close> and the
  \<^verbatim>\<open>OUTPUT\<close> clause of the code project it to, the column \<^verbatim>\<open>Unit\<close> under the name
  \<^verbatim>\<open>Measurement\<close>.
\<close>

datatype date = Date int int int

record IngredientCreate =
  IngredientName :: string
  Amount :: pyfloat
  Measurement :: string
  BestBeforeDate :: date
  ExpirationDate :: date

type_synonym IngredientUpdate = IngredientCreate

record IngredientOut = IngredientCreate +
  IngredientID :: int
  Status :: string

text \<open>
  Modelled from the spec: \<^verbatim>\<open>database.get_db_connection\<close> and the schema of the table are
  not in the source. Each operation acquires a connection of its own; the identifier is
  an integer the database generates, here the successor of the last one; statements
  work on the connection's view of the table, \<^verbatim>\<open>commit\<close> makes the view the
  persisted table, and a connection that is closed or dropped without it leaves the
  persisted table as it was. \<open>calls\<close> records the calls made on the database.

  The comparison \<^verbatim>\<open>IngredientName COLLATE Latin1_General_CI_AS = ?\<close> is made by the
  database engine, outside the program: the parameter \<open>collation\<close> stands for it,
  \<open>collation a b\<close> telling whether the engine finds the stored name \<open>a\<close> equal to the
  submitted name \<open>b\<close>. The properties below hold whatever it is; where one speaks of
  names that differ in the case of letters only, it says of the collation that it
  ignores that case.
\<close>

datatype db_call = Connect | Execute | Commit | Close

record database =
  Ingredients :: "IngredientOut list"
  last_id :: int
  calls :: "db_call list"

record connection =
  db :: database
  pending :: "IngredientOut list"

definition get_db_connection :: "database \<Rightarrow> connection" where
  "get_db_connection d = \<lparr>db = d\<lparr>calls := calls d @ [Connect]\<rparr>, pending = Ingredients d\<rparr>"

definition executed :: "connection \<Rightarrow> connection" where
  "executed c = c\<lparr>db := (db c)\<lparr>calls := calls (db c) @ [Execute]\<rparr>\<rparr>"

definition select_rows ::
  "(IngredientOut \<Rightarrow> bool) \<Rightarrow> connection \<Rightarrow> IngredientOut list \<times> connection" where
  "select_rows p c = (filter p (pending c), executed c)"

definition fetchone :: "'a list \<Rightarrow> 'a option" where
  "fetchone rows = (case rows of [] \<Rightarrow> None | r # _ \<Rightarrow> Some r)"

definition insert_row ::
  "IngredientCreate \<Rightarrow> string \<Rightarrow> connection \<Rightarrow> IngredientOut \<times> connection" where
  "insert_row ingredient status_val c =
     (let new_id = last_id (db c) + 1;
          row = \<lparr>IngredientName = IngredientName ingredient, Amount = Amount ingredient,
                 Measurement = Measurement ingredient,
                 BestBeforeDate = BestBeforeDate ingredient,
                 ExpirationDate = ExpirationDate ingredient,
                 IngredientID = new_id, Status = status_val\<rparr>
      in (row, \<lparr>db = (db c)\<lparr>last_id := new_id, calls := calls (db c) @ [Execute]\<rparr>,
                 pending = pending c @ [row]\<rparr>))"

definition update_rows ::
  "(IngredientOut \<Rightarrow> bool) \<Rightarrow> (IngredientOut \<Rightarrow> IngredientOut) \<Rightarrow> connection \<Rightarrow> connection" where
  "update_rows p f c = (executed c)\<lparr>pending := map (\<lambda>r. if p r then f r else r) (pending c)\<rparr>"

definition delete_rows :: "(IngredientOut \<Rightarrow> bool) \<Rightarrow> connection \<Rightarrow> nat \<times> connection" where
  "delete_rows p c =
     (length (filter p (pending c)),
      (executed c)\<lparr>pending := filter (\<lambda>r. \<not> p r) (pending c)\<rparr>)"

definition commit :: "connection \<Rightarrow> connection" where
  "commit c = c\<lparr>db := (db c)\<lparr>Ingredients := pending c, calls := calls (db c) @ [Commit]\<rparr>\<rparr>"

definition close :: "connection \<Rightarrow> database" where
  "close c = (db c)\<lparr>calls := calls (db c) @ [Close]\<rparr>"

subsection \<open>The endpoints\<close>

text \<open>
  An endpoint takes the identity service, its arguments and the database, and returns
  the error it raises or its status code and body, with the database afterwards; the
  two that classify and compare names take \<open>unicode_lower\<close> and \<open>collation\<close> too. Each
  one validates the token first; a failed validation raises before
  \<^verbatim>\<open>get_db_connection\<close> is called. The \<^verbatim>\<open>finally\<close> clause closes the connection on
  every path of the first three.

  \<^verbatim>\<open>delete_ingredient\<close> ends with
  \<^verbatim>\<open>
  finally:
      if conn: await conn.close
  \<close>
  where the method is not called: \<^verbatim>\<open>await\<close> is given the bound method, which is not
  awaitable, and raises \<^verbatim>\<open>TypeError\<close>. Raised in the \<^verbatim>\<open>finally\<close> clause, it takes the
  place of the \<^verbatim>\<open>HTTPException\<close> on its way out and of the value being returned, on
  every path that has a connection. The statements before it have run: the rows are
  deleted and committed. No \<^verbatim>\<open>close\<close> is called.
\<close>

definition get_all_ingredients ::
  "(string \<Rightarrow> auth_reply) \<Rightarrow> string \<Rightarrow> database
   \<Rightarrow> (error + nat \<times> IngredientOut list) \<times> database" where
  "get_all_ingredients user_service token d =
     (case validate_token_and_roles user_service token
             [''admin'', ''manager'', ''staff'', ''cashier''] of
        Inl e \<Rightarrow> (Inl e, d)
      | Inr _ \<Rightarrow>
          let conn = get_db_connection d;
              (rows, conn) = select_rows (\<lambda>r. True) conn
          in (Inr (200, rows), close conn))"

definition add_ingredient ::
  "(string \<Rightarrow> string) \<Rightarrow> (string \<Rightarrow> string \<Rightarrow> bool) \<Rightarrow> (string \<Rightarrow> auth_reply)
   \<Rightarrow> IngredientCreate \<Rightarrow> string \<Rightarrow> database
   \<Rightarrow> (error + nat \<times> IngredientOut) \<times> database" where
  "add_ingredient unicode_lower collation user_service ingredient token d =
     (case validate_token_and_roles user_service token [''admin'', ''manager'', ''staff''] of
        Inl e \<Rightarrow> (Inl e, d)
      | Inr _ \<Rightarrow>
          let conn = get_db_connection d;
              (found, conn) =
                select_rows
                  (\<lambda>r. collation (IngredientName r) (IngredientName ingredient))
                  conn
          in if fetchone found \<noteq> None
             then (Inl (HTTPException 409 ''Ingredient name already exists.''), close conn)
             else
               let status_val =
                     get_status unicode_lower (Amount ingredient) (Some (Measurement ingredient));
                   (row, conn) = insert_row ingredient status_val conn;
                   conn = commit conn
               in (Inr (201, row), close conn))"

definition update_ingredient ::
  "(string \<Rightarrow> string) \<Rightarrow> (string \<Rightarrow> string \<Rightarrow> bool) \<Rightarrow> (string \<Rightarrow> auth_reply)
   \<Rightarrow> int \<Rightarrow> IngredientUpdate \<Rightarrow> string \<Rightarrow> database
   \<Rightarrow> (error + nat \<times> IngredientOut) \<times> database" where
  "update_ingredient unicode_lower collation user_service ingredient_id ingredient token d =
     (case validate_token_and_roles user_service token [''admin'', ''manager'', ''staff''] of
        Inl e \<Rightarrow> (Inl e, d)
      | Inr _ \<Rightarrow>
          let conn = get_db_connection d;
              (found, conn) =
                select_rows
                  (\<lambda>r. collation (IngredientName r) (IngredientName ingredient)
                        \<and> IngredientID r \<noteq> ingredient_id)
                  conn
          in if fetchone found \<noteq> None
             then (Inl (HTTPException 409 ''Ingredient name already exists.''), close conn)
             else
               let status_val =
                     get_status unicode_lower (Amount ingredient) (Some (Measurement ingredient));
                   conn =
                     update_rows (\<lambda>r. IngredientID r = ingredient_id)
                       (\<lambda>r. r\<lparr>IngredientName := IngredientName ingredient,
                               Amount := Amount ingredient,
                               Measurement := Measurement ingredient,
                               BestBeforeDate := BestBeforeDate ingredient,
                               ExpirationDate := ExpirationDate ingredient,
                               Status := status_val\<rparr>)
                       conn;
                   (rows, conn) = select_rows (\<lambda>r. IngredientID r = ingredient_id) conn
               in (case fetchone rows of
                     None \<Rightarrow> (Inl (HTTPException 404 ''Ingredient not found''), close conn)
                   | Some row \<Rightarrow> (Inr (200, row), close (commit conn))))"

definition delete_ingredient ::
  "(string \<Rightarrow> auth_reply) \<Rightarrow> int \<Rightarrow> string \<Rightarrow> database
   \<Rightarrow> (error + nat \<times> string) \<times> database" where
  "delete_ingredient user_service ingredient_id token d =
     (case validate_token_and_roles user_service token [''admin'', ''manager'', ''staff''] of
        Inl e \<Rightarrow> (Inl e, d)
      | Inr _ \<Rightarrow>
          let conn = get_db_connection d;
              (rowcount, conn) = delete_rows (\<lambda>r. IngredientID r = ingredient_id) conn;
              (outcome, conn) =
                (if rowcount = 0
                 then (Inl (HTTPException 404 ''Ingredient not found''), conn)
                 else (Inr (200 :: nat, ''Ingredient deleted successfully''), commit conn))
          in (Inl (Unhandled ''TypeError''), db conn))"

subsection \<open>Terms of the specification\<close>

text \<open>
  The row a write stores for a request under an identifier: the request's five fields
  and the status the classifier gives its amount and unit.
\<close>

definition new_row :: "(string \<Rightarrow> string) \<Rightarrow> IngredientCreate \<Rightarrow> int \<Rightarrow> IngredientOut" where
  "new_row unicode_lower ingredient i =
     \<lparr>IngredientName = IngredientName ingredient, Amount = Amount ingredient,
      Measurement = Measurement ingredient, BestBeforeDate = BestBeforeDate ingredient,
      ExpirationDate = ExpirationDate ingredient, IngredientID = i,
      Status = get_status unicode_lower (Amount ingredient) (Some (Measurement ingredient))\<rparr>"

text \<open>
  Two names with the same letters: equal but for the case of the letters A to Z. A
  comparison without regard to case finds such names equal.
\<close>

definition same_letters :: "string \<Rightarrow> string \<Rightarrow> bool" where
  "same_letters a b = list_all2 (\<lambda>c d. to_lower c = to_lower d) a b"

definition ignores_case :: "(string \<Rightarrow> string \<Rightarrow> bool) \<Rightarrow> bool" where
  "ignores_case collation = (\<forall>a b. same_letters a b \<longrightarrow> collation a b)"

text \<open>Names are unique under the collation: rows with matching names are one record.\<close>

definition names_unique :: "(string \<Rightarrow> string \<Rightarrow> bool) \<Rightarrow> IngredientOut list \<Rightarrow> bool" where
  "names_unique collation rows =
     list_all (\<lambda>r. list_all (\<lambda>r'. collation (IngredientName r) (IngredientName r')
                                   \<longrightarrow> IngredientID r = IngredientID r') rows) rows"

subsection \<open>Sample data\<close>

text \<open>
  An identity service that knows an administrator, a cashier, a user whose record has no
  role and an expired token, and is unreachable for every other token; a lower-casing
  that leaves the strings beyond ASCII as they are and a collation that finds equal the
  names with the same letters; and a table of two ingredients.
\<close>

definition sample_lower :: "string \<Rightarrow> string" where
  "sample_lower s = s"

definition sample_collation :: "string \<Rightarrow> string \<Rightarrow> bool" where
  "sample_collation a b = same_letters a b"

definition sample_service :: "string \<Rightarrow> auth_reply" where
  "sample_service token =
     (if token = ''admin-token'' then
        Response \<lparr>status_code = 200, json = JsonObject [''userRole'' \<mapsto> PyStr ''admin''],
                  text_body = ''{userRole: admin}''\<rparr>
      else if token = ''cashier-token'' then
        Response \<lparr>status_code = 200, json = JsonObject [''userRole'' \<mapsto> PyStr ''cashier''],
                  text_body = ''{userRole: cashier}''\<rparr>
      else if token = ''norole-token'' then
        Response \<lparr>status_code = 200, json = JsonObject [''username'' \<mapsto> PyStr ''kim''],
                  text_body = ''{username: kim}''\<rparr>
      else if token = ''expired-token'' then
        Response \<lparr>status_code = 401,
                  json = JsonObject [''detail'' \<mapsto> PyStr ''Could not validate credentials''],
                  text_body = ''{detail: Could not validate credentials}''\<rparr>
      else RequestError ''All connection attempts failed'')"

definition flour :: IngredientCreate where
  "flour = \<lparr>IngredientName = ''Flour'', Amount = Finite 30, Measurement = ''kg'',
            BestBeforeDate = Date 2025 6 1, ExpirationDate = Date 2025 12 1\<rparr>"

definition sugar :: IngredientCreate where
  "sugar = \<lparr>IngredientName = ''Sugar'', Amount = Finite 0.3, Measurement = ''KG'',
            BestBeforeDate = Date 2025 7 1, ExpirationDate = Date 2026 1 1\<rparr>"

definition empty_db :: database where
  "empty_db = \<lparr>Ingredients = [], last_id = 0, calls = []\<rparr>"

definition pantry :: database where
  "pantry =
     \<lparr>Ingredients = [new_row sample_lower flour 1, new_row sample_lower sugar 2],
      last_id = 2, calls = []\<rparr>"

section \<open>The status classifier: properties\<close>

lemma of_char_to_lower:
  "(of_char (to_lower c) :: nat) =
     (if 65 \<le> (of_char c :: nat) \<and> (of_char c :: nat) \<le> 90 then of_char c + 32 else of_char c)"
  by (simp add: to_lower_def Let_def)

lemma char_eq_iff_nat: "c = d \<longleftrightarrow> (of_char c :: nat) = of_char d"
  by (auto dest: injD [OF inj_of_char])

lemma to_lower_letters:
  "to_lower c = CHR ''g'' \<longleftrightarrow> c = CHR ''g'' \<or> c = CHR ''G''"
  "to_lower c = CHR ''k'' \<longleftrightarrow> c = CHR ''k'' \<or> c = CHR ''K''"
  "to_lower c = CHR ''l'' \<longleftrightarrow> c = CHR ''l'' \<or> c = CHR ''L''"
  "to_lower c = CHR ''m'' \<longleftrightarrow> c = CHR ''m'' \<or> c = CHR ''M''"
  unfolding char_eq_iff_nat [of "to_lower c"] char_eq_iff_nat [of c] of_char_to_lower
  by auto

lemma map_to_lower_one: "map to_lower s = [x] \<longleftrightarrow> (\<exists>a. s = [a] \<and> to_lower a = x)"
  by (cases s) auto

lemma map_to_lower_two:
  "map to_lower s = [x, y] \<longleftrightarrow> (\<exists>a b. s = [a, b] \<and> to_lower a = x \<and> to_lower b = y)"
  by (cases s) (auto simp: map_to_lower_one)

lemma spellings:
  "map to_lower s = ''g'' \<longleftrightarrow> s \<in> set [''g'', ''G'']"
  "map to_lower s = ''kg'' \<longleftrightarrow> s \<in> set [''kg'', ''kG'', ''Kg'', ''KG'']"
  "map to_lower s = ''ml'' \<longleftrightarrow> s \<in> set [''ml'', ''mL'', ''Ml'', ''ML'']"
  "map to_lower s = ''l'' \<longleftrightarrow> s \<in> set [''l'', ''L'']"
  by (auto simp: map_to_lower_one map_to_lower_two to_lower_letters)

lemma thresholds_lookup:
  "dict_get thresholds k 1 =
     (if k = ''g'' then 50 else if k = ''kg'' then 0.5 else if k = ''ml'' then 100
      else if k = ''l'' then 0.5 else 1)"
  by (simp add: dict_get_def thresholds_def)

lemma spec_threshold_lower:
  "spec_threshold unicode_lower unit = dict_get thresholds (lower unicode_lower unit) 1"
proof (cases "is_ascii unit")
  case True
  then show ?thesis
    unfolding spec_threshold_def unit_is_def lower_def thresholds_lookup
    by (simp only: spellings [symmetric] if_True)
next
  case False
  then show ?thesis
    unfolding spec_threshold_def unit_is_def lower_def thresholds_lookup
    by (simp only: if_False)
qed

lemma to_lower_chars:
  "to_lower CHR ''g'' = CHR ''g''" "to_lower CHR ''k'' = CHR ''k''"
  "to_lower CHR ''l'' = CHR ''l''" "to_lower CHR ''m'' = CHR ''m''"
  "to_lower CHR ''x'' = CHR ''x''" "to_lower CHR ''y'' = CHR ''y''"
  "to_lower CHR ''z'' = CHR ''z''"
  "to_lower CHR ''G'' = CHR ''g''" "to_lower CHR ''K'' = CHR ''k''"
  "to_lower CHR ''L'' = CHR ''l''" "to_lower CHR ''M'' = CHR ''m''"
  by code_simp+

lemma lower_units:
  "lower unicode_lower ''g'' = ''g''" "lower unicode_lower ''kg'' = ''kg''"
  "lower unicode_lower ''xyz'' = ''xyz''" "lower unicode_lower [] = []"
  "lower unicode_lower ''KG'' = ''kg''" "lower unicode_lower ''Kg'' = ''kg''"
  "lower unicode_lower ''G'' = ''g''" "lower unicode_lower ''mL'' = ''ml''"
  "lower unicode_lower ''L'' = ''l''"
  by (simp_all add: lower_def is_ascii_def to_lower_chars)

text \<open>
  C1. The classifier computes the specified function of amount and unit: not available
  up to zero, low stock up to the unit's threshold (g 50, kg 0.5, ml 100, l 0.5, any
  other unit 1, the unit matched without regard to case), available above it; with the
  five values the specification lists, and with units written in capital letters, which
  get the threshold of their unit and not the default.
\<close>

theorem get_status_is_spec_classify:
  "get_status unicode_lower amount (Some unit) = spec_classify unicode_lower amount unit
   \<and> get_status unicode_lower (Finite 0) (Some ''g'') = ''Not Available''
   \<and> get_status unicode_lower (Finite 30) (Some ''g'') = ''Low Stock''
   \<and> get_status unicode_lower (Finite 30) (Some ''kg'') = ''Available''
   \<and> get_status unicode_lower (Finite 0.3) (Some ''kg'') = ''Low Stock''
   \<and> get_status unicode_lower (Finite 100) (Some ''xyz'') = ''Available''
   \<and> get_status unicode_lower (Finite 0.7) (Some ''KG'') = ''Available''
   \<and> get_status unicode_lower (Finite 0.7) (Some ''Kg'') = ''Available''
   \<and> get_status unicode_lower (Finite 30) (Some ''G'') = ''Low Stock''
   \<and> get_status unicode_lower (Finite 70) (Some ''mL'') = ''Low Stock''
   \<and> get_status unicode_lower (Finite 0.7) (Some ''L'') = ''Available''
   \<and> get_status unicode_lower (Finite 0.7) (Some ''xyz'') = ''Low Stock''"
proof -
  have general:
    "get_status unicode_lower amount (Some unit) = spec_classify unicode_lower amount unit"
    by (simp add: get_status_def spec_classify_def spec_threshold_lower)
  have listed:
    "get_status unicode_lower (Finite 0) (Some ''g'') = ''Not Available''"
    "get_status unicode_lower (Finite 30) (Some ''g'') = ''Low Stock''"
    "get_status unicode_lower (Finite 30) (Some ''kg'') = ''Available''"
    "get_status unicode_lower (Finite 0.3) (Some ''kg'') = ''Low Stock''"
    "get_status unicode_lower (Finite 100) (Some ''xyz'') = ''Available''"
    by (simp_all add: get_status_def lower_units thresholds_lookup)
  have capitals:
    "get_status unicode_lower (Finite 0.7) (Some ''KG'') = ''Available''"
    "get_status unicode_lower (Finite 0.7) (Some ''Kg'') = ''Available''"
    "get_status unicode_lower (Finite 30) (Some ''G'') = ''Low Stock''"
    "get_status unicode_lower (Finite 70) (Some ''mL'') = ''Low Stock''"
    "get_status unicode_lower (Finite 0.7) (Some ''L'') = ''Available''"
    "get_status unicode_lower (Finite 0.7) (Some ''xyz'') = ''Low Stock''"
    by (simp_all add: get_status_def lower_units thresholds_lookup)
  from general listed capitals show ?thesis by blast
qed

text \<open>
  A unit beyond ASCII is matched by its lower-casing: the Kelvin sign (U+212A, the
  bytes E2 84 AA) followed by g is the unit kg when \<^verbatim>\<open>str.lower()\<close> gives \<^verbatim>\<open>kg\<close> for
  it, as Python's does.
\<close>

lemma get_status_kelvin_sign:
  assumes "unicode_lower [CHR 0xE2, CHR 0x84, CHR 0xAA, CHR ''g''] = ''kg''"
  shows "get_status unicode_lower (Finite 0.7) (Some [CHR 0xE2, CHR 0x84, CHR 0xAA, CHR ''g''])
    = ''Available''"
  using assms by (simp add: get_status_def lower_def is_ascii_def thresholds_lookup)

section \<open>The token validator: properties\<close>

lemma sample_replies:
  "validate_token_and_roles sample_service ''admin-token'' [''admin'', ''manager'', ''staff''] = Inr ()"
  "validate_token_and_roles sample_service ''admin-token''
     [''admin'', ''manager'', ''staff'', ''cashier''] = Inr ()"
  "validate_token_and_roles sample_service ''cashier-token''
     [''admin'', ''manager'', ''staff'', ''cashier''] = Inr ()"
  by (simp_all add: validate_token_and_roles_def sample_service_def is_success_def dict_get_def)

text \<open>
  C6. When the identity service answers with a status that is not a success, the
  validator fails with that same status code and a message that says so and gives the
  code; when the service cannot be reached (no connection, a timeout), it fails with
  503 Service Unavailable, never with 500.
\<close>

theorem validate_upstream_failure:
  "(user_service token = Response r \<longrightarrow> \<not> is_success r \<longrightarrow>
      validate_token_and_roles user_service token allowed_roles =
        Inl (HTTPException (status_code r) (error_detail r))
      \<and> (\<exists>rest. error_detail r =
            ''Ingredients Auth service error: '' @ str_nat (status_code r) @ rest))
   \<and> (user_service token = RequestError e \<longrightarrow>
      validate_token_and_roles user_service token allowed_roles =
        Inl (HTTPException 503 (''Ingredients Auth service unavailable: '' @ e))
      \<and> (\<forall>m. validate_token_and_roles user_service token allowed_roles
             \<noteq> Inl (HTTPException 500 m)))"
  by (simp add: validate_token_and_roles_def error_detail_def)

text \<open>The sample service answers 401 for the expired token and is unreachable for others.\<close>

theorem validate_upstream_failure_witness:
  "validate_token_and_roles sample_service ''expired-token'' [''admin'', ''manager'', ''staff''] =
     Inl (HTTPException 401
       ''Ingredients Auth service error: 401 - Could not validate credentials'')
   \<and> validate_token_and_roles sample_service ''some-token'' [''admin'', ''manager'', ''staff''] =
     Inl (HTTPException 503
       ''Ingredients Auth service unavailable: All connection attempts failed'')"
proof -
  let ?r = "\<lparr>status_code = 401,
              json = JsonObject [''detail'' \<mapsto> PyStr ''Could not validate credentials''],
              text_body = ''{detail: Could not validate credentials}''\<rparr>"
  have reply: "sample_service ''expired-token'' = Response ?r"
    by (simp add: sample_service_def)
  have failure: "\<not> is_success ?r"
    by (simp add: is_success_def)
  have digits: "str_nat 401 = ''401''"
    by code_simp
  have detail: "error_detail ?r =
      ''Ingredients Auth service error: 401 - Could not validate credentials''"
    by (simp add: error_detail_def digits dict_get_def)
  have down: "sample_service ''some-token'' = RequestError ''All connection attempts failed''"
    by (simp add: sample_service_def)
  from validate_upstream_failure
    [of sample_service "''expired-token''" ?r "[''admin'', ''manager'', ''staff'']"]
    reply failure detail
  have first: "validate_token_and_roles sample_service ''expired-token''
      [''admin'', ''manager'', ''staff''] =
     Inl (HTTPException 401
       ''Ingredients Auth service error: 401 - Could not validate credentials'')"
    by simp
  from validate_upstream_failure
    [of sample_service "''some-token''" _ "[''admin'', ''manager'', ''staff'']"
        "''All connection attempts failed''"] down
  have second: "validate_token_and_roles sample_service ''some-token''
      [''admin'', ''manager'', ''staff''] =
     Inl (HTTPException 503
       ''Ingredients Auth service unavailable: All connection attempts failed'')"
    by simp
  from first second show ?thesis by blast
qed

text \<open>
  C7. When the identity service answers with a success and a body that gives the role,
  a role outside the allowed roles fails with 403 Forbidden and a message that names the
  role the user has; a role among the allowed roles succeeds and returns nothing.
\<close>

theorem validate_role_check:
  assumes "user_service token = Response r" and "is_success r"
    and "json r = JsonObject user_data"
  shows
    "(\<not> py_in (dict_get user_data ''userRole'' PyNone) allowed_roles \<longrightarrow>
        validate_token_and_roles user_service token allowed_roles =
          Inl (HTTPException 403
                (''Access denied. Required role not met. User has role: '' @
                 [CHR 0x27] @ py_str (dict_get user_data ''userRole'' PyNone) @ [CHR 0x27])))
     \<and> (py_in (dict_get user_data ''userRole'' PyNone) allowed_roles \<longrightarrow>
        validate_token_and_roles user_service token allowed_roles = Inr ())
     \<and> (\<forall>role. user_data ''userRole'' = Some (PyStr role) \<longrightarrow>
          validate_token_and_roles user_service token allowed_roles =
            (if role \<in> set allowed_roles then Inr ()
             else Inl (HTTPException 403
                (''Access denied. Required role not met. User has role: '' @
                 [CHR 0x27] @ role @ [CHR 0x27]))))"
  using assms by (simp add: validate_token_and_roles_def dict_get_def Let_def)

text \<open>The cashier is refused by the three write roles and accepted by the four read roles.\<close>

theorem validate_role_check_witness:
  "validate_token_and_roles sample_service ''cashier-token'' [''admin'', ''manager'', ''staff''] =
     Inl (HTTPException 403
           (''Access denied. Required role not met. User has role: '' @
            [CHR 0x27] @ ''cashier'' @ [CHR 0x27]))
   \<and> validate_token_and_roles sample_service ''cashier-token''
       [''admin'', ''manager'', ''staff'', ''cashier''] = Inr ()"
proof -
  let ?d = "[''userRole'' \<mapsto> PyStr ''cashier'']"
  let ?r = "\<lparr>status_code = 200, json = JsonObject ?d, text_body = ''{userRole: cashier}''\<rparr>"
  have reply: "sample_service ''cashier-token'' = Response ?r"
    by (simp add: sample_service_def)
  have ok: "is_success ?r"
    by (simp add: is_success_def)
  have body: "json ?r = JsonObject ?d"
    by simp
  have role: "dict_get ?d ''userRole'' PyNone = PyStr ''cashier''"
    by (simp add: dict_get_def)
  from validate_role_check
    [of sample_service "''cashier-token''" ?r ?d "[''admin'', ''manager'', ''staff'']"]
    reply ok body
  have denied: "validate_token_and_roles sample_service ''cashier-token''
      [''admin'', ''manager'', ''staff''] =
     Inl (HTTPException 403
           (''Access denied. Required role not met. User has role: '' @
            [CHR 0x27] @ ''cashier'' @ [CHR 0x27]))"
    by (simp add: role)
  from validate_role_check
    [of sample_service "''cashier-token''" ?r ?d "[''admin'', ''manager'', ''staff'', ''cashier'']"]
    reply ok body
  have allowed: "validate_token_and_roles sample_service ''cashier-token''
      [''admin'', ''manager'', ''staff'', ''cashier''] = Inr ()"
    by (simp add: role)
  from denied allowed show ?thesis by blast
qed

text \<open>
  C10. When the identity service answers with a success and a body without the role
  field, or with a null role, the role is \<^verbatim>\<open>None\<close>, which no list of allowed roles
  holds: the validator fails with 403 Forbidden, its message naming the role
  \<^verbatim>\<open>'None'\<close>, and not with an unhandled error. The classifier takes a missing unit for
  the empty string and applies the default threshold 1.
\<close>

theorem missing_role_and_unit:
  "(user_service token = Response r \<longrightarrow> is_success r \<longrightarrow> json r = JsonObject user_data \<longrightarrow>
      (user_data ''userRole'' = None \<or> user_data ''userRole'' = Some PyNone) \<longrightarrow>
      validate_token_and_roles user_service token allowed_roles =
        Inl (HTTPException 403
              (''Access denied. Required role not met. User has role: '' @
               [CHR 0x27] @ ''None'' @ [CHR 0x27])))
   \<and> get_status unicode_lower amount None = get_status unicode_lower amount (Some '''')
   \<and> get_status unicode_lower amount None =
        (if float_le amount (Finite 0) then ''Not Available''
         else if float_le amount (Finite 1) then ''Low Stock''
         else ''Available'')"
proof -
  have role: "user_service token = Response r \<Longrightarrow> is_success r \<Longrightarrow>
      json r = JsonObject user_data \<Longrightarrow>
      user_data ''userRole'' = None \<or> user_data ''userRole'' = Some PyNone \<Longrightarrow>
      validate_token_and_roles user_service token allowed_roles =
        Inl (HTTPException 403
              (''Access denied. Required role not met. User has role: '' @
               [CHR 0x27] @ ''None'' @ [CHR 0x27]))"
    by (auto simp add: validate_token_and_roles_def dict_get_def Let_def)
  have unit: "get_status unicode_lower amount None = get_status unicode_lower amount (Some '''')"
    by (simp add: get_status_def)
  have dflt: "get_status unicode_lower amount None =
        (if float_le amount (Finite 0) then ''Not Available''
         else if float_le amount (Finite 1) then ''Low Stock''
         else ''Available'')"
    by (simp add: get_status_def lower_units thresholds_lookup)
  from role unit dflt show ?thesis by blast
qed

text \<open>The sample user without a role is refused; 0.7 of no unit is low stock.\<close>

theorem missing_role_and_unit_witness:
  "validate_token_and_roles sample_service ''norole-token''
       [''admin'', ''manager'', ''staff'', ''cashier''] =
     Inl (HTTPException 403
           (''Access denied. Required role not met. User has role: '' @
            [CHR 0x27] @ ''None'' @ [CHR 0x27]))
   \<and> get_status sample_lower (Finite 0.7) None = ''Low Stock''"
proof -
  let ?d = "[''username'' \<mapsto> PyStr ''kim'']"
  let ?r = "\<lparr>status_code = 200, json = JsonObject ?d, text_body = ''{username: kim}''\<rparr>"
  have reply: "sample_service ''norole-token'' = Response ?r"
    by (simp add: sample_service_def)
  have ok: "is_success ?r"
    by (simp add: is_success_def)
  have body: "json ?r = JsonObject ?d"
    by simp
  have norole: "?d ''userRole'' = None"
    by simp
  note inst = missing_role_and_unit
    [of sample_service "''norole-token''" ?r ?d "[''admin'', ''manager'', ''staff'', ''cashier'']"
        sample_lower "Finite 0.7"]
  from inst reply ok body norole
  have denied: "validate_token_and_roles sample_service ''norole-token''
       [''admin'', ''manager'', ''staff'', ''cashier''] =
     Inl (HTTPException 403
           (''Access denied. Required role not met. User has role: '' @
            [CHR 0x27] @ ''None'' @ [CHR 0x27]))"
    by blast
  from inst have "get_status sample_lower (Finite 0.7) None =
        (if float_le (Finite 0.7) (Finite 0) then ''Not Available''
         else if float_le (Finite 0.7) (Finite 1) then ''Low Stock''
         else ''Available'')"
    by blast
  then have low: "get_status sample_lower (Finite 0.7) None = ''Low Stock''"
    by simp
  from denied low show ?thesis by blast
qed

section \<open>The endpoints once the token is accepted\<close>

lemma fetchone_None: "fetchone rows = None \<longleftrightarrow> rows = []"
  by (simp add: fetchone_def split: list.splits)

lemma fetchone_filter_None: "fetchone (filter p rows) = None \<longleftrightarrow> (\<forall>r\<in>set rows. \<not> p r)"
  by (simp add: fetchone_None filter_empty_conv)

lemma fetchone_filter_found:
  "(\<exists>y. fetchone (filter p rows) = Some y) \<longleftrightarrow> (\<exists>r\<in>set rows. p r)"
  using fetchone_filter_None [of p rows] by (cases "fetchone (filter p rows)") auto

lemmas db_defs = get_db_connection_def select_rows_def executed_def insert_row_def
  update_rows_def delete_rows_def commit_def close_def

lemma get_all_ingredients_authorized:
  assumes "validate_token_and_roles user_service token
             [''admin'', ''manager'', ''staff'', ''cashier''] = Inr ()"
  shows "get_all_ingredients user_service token d =
     (Inr (200, Ingredients d), d\<lparr>calls := calls d @ [Connect, Execute, Close]\<rparr>)"
  using assms by (simp add: get_all_ingredients_def db_defs)

lemma add_ingredient_authorized:
  assumes "validate_token_and_roles user_service token [''admin'', ''manager'', ''staff''] = Inr ()"
  shows "add_ingredient unicode_lower collation user_service ingredient token d =
     (if \<exists>r\<in>set (Ingredients d). collation (IngredientName r) (IngredientName ingredient)
      then (Inl (HTTPException 409 ''Ingredient name already exists.''),
            d\<lparr>calls := calls d @ [Connect, Execute, Close]\<rparr>)
      else (Inr (201, new_row unicode_lower ingredient (last_id d + 1)),
            \<lparr>Ingredients = Ingredients d @ [new_row unicode_lower ingredient (last_id d + 1)],
             last_id = last_id d + 1,
             calls = calls d @ [Connect, Execute, Execute, Commit, Close]\<rparr>))"
  using assms
  by (simp add: add_ingredient_def db_defs fetchone_filter_None fetchone_filter_found
      new_row_def Let_def)

lemma update_ingredient_authorized:
  assumes "validate_token_and_roles user_service token [''admin'', ''manager'', ''staff''] = Inr ()"
  shows "update_ingredient unicode_lower collation user_service ingredient_id ingredient token d =
     (if \<exists>r\<in>set (Ingredients d). collation (IngredientName r) (IngredientName ingredient)
            \<and> IngredientID r \<noteq> ingredient_id
      then (Inl (HTTPException 409 ''Ingredient name already exists.''),
            d\<lparr>calls := calls d @ [Connect, Execute, Close]\<rparr>)
      else if \<exists>r\<in>set (Ingredients d). IngredientID r = ingredient_id
      then (Inr (200, new_row unicode_lower ingredient ingredient_id),
            d\<lparr>Ingredients :=
                 map (\<lambda>r. if IngredientID r = ingredient_id
                          then new_row unicode_lower ingredient ingredient_id else r)
                   (Ingredients d),
              calls := calls d @ [Connect, Execute, Execute, Execute, Commit, Close]\<rparr>)
      else (Inl (HTTPException 404 ''Ingredient not found''),
            d\<lparr>calls := calls d @ [Connect, Execute, Execute, Execute, Close]\<rparr>))"
proof -
  let ?n = "new_row unicode_lower ingredient ingredient_id"
  let ?upd = "\<lambda>r::IngredientOut.
     r\<lparr>IngredientName := IngredientName ingredient, Amount := Amount ingredient,
       Measurement := Measurement ingredient, BestBeforeDate := BestBeforeDate ingredient,
       ExpirationDate := ExpirationDate ingredient,
       Status := get_status unicode_lower (Amount ingredient) (Some (Measurement ingredient))\<rparr>"
  have upd: "IngredientID r = ingredient_id \<Longrightarrow> ?upd r = ?n" for r
    by (cases r) (simp add: new_row_def)
  have map_eq: "map (\<lambda>r. if IngredientID r = ingredient_id then ?upd r else r) rows
      = map (\<lambda>r. if IngredientID r = ingredient_id then ?n else r) rows" for rows
    by (rule map_cong) (auto simp: upd)
  have id_n: "IngredientID ?n = ingredient_id"
    by (simp add: new_row_def)
  have sel: "fetchone (filter (\<lambda>r. IngredientID r = ingredient_id)
        (map (\<lambda>r. if IngredientID r = ingredient_id then ?n else r) rows))
      = (if \<exists>r\<in>set rows. IngredientID r = ingredient_id then Some ?n else None)" for rows
    by (induction rows) (auto simp: fetchone_def id_n)
  have step:
    "update_ingredient unicode_lower collation user_service ingredient_id ingredient token d =
     (if fetchone (filter (\<lambda>r. collation (IngredientName r) (IngredientName ingredient)
            \<and> IngredientID r \<noteq> ingredient_id) (Ingredients d)) \<noteq> None
      then (Inl (HTTPException 409 ''Ingredient name already exists.''),
            d\<lparr>calls := calls d @ [Connect, Execute, Close]\<rparr>)
      else (case fetchone (filter (\<lambda>r. IngredientID r = ingredient_id)
              (map (\<lambda>r. if IngredientID r = ingredient_id then ?upd r else r)
                 (Ingredients d))) of
          None \<Rightarrow> (Inl (HTTPException 404 ''Ingredient not found''),
            d\<lparr>calls := calls d @ [Connect, Execute, Execute, Execute, Close]\<rparr>)
        | Some row \<Rightarrow> (Inr (200, row),
            d\<lparr>Ingredients :=
                 map (\<lambda>r. if IngredientID r = ingredient_id then ?upd r else r)
                   (Ingredients d),
              calls := calls d @ [Connect, Execute, Execute, Execute, Commit, Close]\<rparr>)))"
    using assms
    by (simp add: update_ingredient_def db_defs Let_def
        split del: if_split split: option.split del: not_None_eq cong: if_cong)
  show ?thesis
    unfolding step map_eq sel
    by (simp add: fetchone_filter_None)
qed

text \<open>
  An accepted delete removes and commits the rows, or finds none, and then raises
  \<^verbatim>\<open>TypeError\<close> from its \<^verbatim>\<open>finally\<close> clause either way.
\<close>

lemma delete_ingredient_authorized:
  assumes "validate_token_and_roles user_service token [''admin'', ''manager'', ''staff''] = Inr ()"
  shows "delete_ingredient user_service ingredient_id token d =
     (Inl (Unhandled ''TypeError''),
      if \<exists>r\<in>set (Ingredients d). IngredientID r = ingredient_id
      then d\<lparr>Ingredients := filter (\<lambda>r. IngredientID r \<noteq> ingredient_id) (Ingredients d),
              calls := calls d @ [Connect, Execute, Commit]\<rparr>
      else d\<lparr>calls := calls d @ [Connect, Execute]\<rparr>)"
  using assms
  by (auto simp add: delete_ingredient_def db_defs Let_def filter_empty_conv)

section \<open>The endpoints: properties\<close>

lemma names_unique_iff:
  "names_unique collation rows \<longleftrightarrow>
     (\<forall>r\<in>set rows. \<forall>r'\<in>set rows.
        collation (IngredientName r) (IngredientName r') \<longrightarrow> IngredientID r = IngredientID r')"
  by (simp add: names_unique_def list_all_iff)

lemma rejected_before_database:
  assumes "validate_token_and_roles user_service token [''admin'', ''manager'', ''staff''] = Inl e"
  shows "add_ingredient unicode_lower collation user_service ingredient token d = (Inl e, d)"
    and "update_ingredient unicode_lower collation user_service ingredient_id ingredient token d
      = (Inl e, d)"
    and "delete_ingredient user_service ingredient_id token d = (Inl e, d)"
  using assms by (simp_all add: add_ingredient_def update_ingredient_def delete_ingredient_def)

lemma validated_cases:
  obtains e where "validate_token_and_roles user_service token roles = Inl e"
  | "validate_token_and_roles user_service token roles = Inr ()"
  by (cases "validate_token_and_roles user_service token roles") auto

lemma new_row_fields:
  "IngredientName (new_row unicode_lower ingredient i) = IngredientName ingredient"
  "IngredientID (new_row unicode_lower ingredient i) = i"
  "Amount (new_row unicode_lower ingredient i) = Amount ingredient"
  "Measurement (new_row unicode_lower ingredient i) = Measurement ingredient"
  "Status (new_row unicode_lower ingredient i) =
     get_status unicode_lower (Amount ingredient) (Some (Measurement ingredient))"
  by (simp_all add: new_row_def)

lemma sample_tables:
  "Ingredients empty_db = []" "last_id empty_db = 0" "calls empty_db = []"
  "Ingredients pantry = [new_row sample_lower flour 1, new_row sample_lower sugar 2]"
  "last_id pantry = 2" "calls pantry = []"
  by (simp_all add: empty_db_def pantry_def)

lemma sample_requests:
  "IngredientName flour = ''Flour''" "IngredientName sugar = ''Sugar''"
  "Amount sugar = Finite 0.3" "Measurement sugar = ''KG''"
  by (simp_all add: flour_def sugar_def)

lemma sample_letters:
  "same_letters ''Flour'' ''flour''" "\<not> same_letters ''Sugar'' ''flour''"
  "same_letters ''Sugar'' ''sugar''" "\<not> same_letters ''Flour'' ''sugar''"
  "\<not> same_letters ''Sugar'' ''Flour''" "\<not> same_letters ''Flour'' ''Sugar''"
  "same_letters ''Flour'' ''Flour''" "same_letters ''Sugar'' ''Sugar''"
  "\<not> same_letters ''Flour'' ''Rice''" "\<not> same_letters ''Sugar'' ''Rice''"
  by code_simp+

lemma sample_ignores_case: "ignores_case sample_collation"
  by (simp add: ignores_case_def sample_collation_def)

text \<open>
  C3. For an accepted token: a create request whose name the collation finds equal to
  the name of an existing record fails with 409 Conflict and inserts nothing, and so,
  the collation ignoring case, does every request whose name has the letters of an
  existing name in other case; a request whose name it finds equal to none computes the
  status with the classifier, inserts the record and returns it, with the generated
  identifier, under status code 201.
\<close>

theorem add_ingredient_conflict_or_created:
  assumes "validate_token_and_roles user_service token [''admin'', ''manager'', ''staff''] = Inr ()"
  shows
    "((\<exists>r\<in>set (Ingredients d). collation (IngredientName r) (IngredientName ingredient)) \<longrightarrow>
        fst (add_ingredient unicode_lower collation user_service ingredient token d) =
          Inl (HTTPException 409 ''Ingredient name already exists.'')
        \<and> Ingredients (snd (add_ingredient unicode_lower collation user_service ingredient token d))
            = Ingredients d)
     \<and> (ignores_case collation \<longrightarrow>
        (\<exists>r\<in>set (Ingredients d). same_letters (IngredientName r) (IngredientName ingredient)) \<longrightarrow>
        fst (add_ingredient unicode_lower collation user_service ingredient token d) =
          Inl (HTTPException 409 ''Ingredient name already exists.'')
        \<and> Ingredients (snd (add_ingredient unicode_lower collation user_service ingredient token d))
            = Ingredients d)
     \<and> ((\<forall>r\<in>set (Ingredients d).
            \<not> collation (IngredientName r) (IngredientName ingredient)) \<longrightarrow>
        fst (add_ingredient unicode_lower collation user_service ingredient token d) =
          Inr (201, new_row unicode_lower ingredient (last_id d + 1))
        \<and> Ingredients (snd (add_ingredient unicode_lower collation user_service ingredient token d))
            = Ingredients d @ [new_row unicode_lower ingredient (last_id d + 1)])"
proof -
  note add = add_ingredient_authorized [OF assms, of unicode_lower collation ingredient d]
  have clash: "\<exists>r\<in>set (Ingredients d). collation (IngredientName r) (IngredientName ingredient) \<Longrightarrow>
        fst (add_ingredient unicode_lower collation user_service ingredient token d) =
          Inl (HTTPException 409 ''Ingredient name already exists.'')
        \<and> Ingredients (snd (add_ingredient unicode_lower collation user_service ingredient token d))
            = Ingredients d"
    by (simp add: add)
  have letters: "ignores_case collation \<Longrightarrow>
      \<exists>r\<in>set (Ingredients d). same_letters (IngredientName r) (IngredientName ingredient) \<Longrightarrow>
      \<exists>r\<in>set (Ingredients d). collation (IngredientName r) (IngredientName ingredient)"
    unfolding ignores_case_def by blast
  have free: "\<forall>r\<in>set (Ingredients d).
            \<not> collation (IngredientName r) (IngredientName ingredient) \<Longrightarrow>
        fst (add_ingredient unicode_lower collation user_service ingredient token d) =
          Inr (201, new_row unicode_lower ingredient (last_id d + 1))
        \<and> Ingredients (snd (add_ingredient unicode_lower collation user_service ingredient token d))
            = Ingredients d @ [new_row unicode_lower ingredient (last_id d + 1)]"
    by (simp add: add)
  from clash letters free show ?thesis by blast
qed

text \<open>Creating ``Flour'' in the empty table and then ``flour'' yields Conflict.\<close>

theorem add_ingredient_conflict_or_created_witness:
  "fst (add_ingredient sample_lower sample_collation sample_service flour ''admin-token'' empty_db)
     = Inr (201, new_row sample_lower flour 1)
   \<and> Ingredients (snd (add_ingredient sample_lower sample_collation sample_service flour
         ''admin-token'' empty_db)) = [new_row sample_lower flour 1]
   \<and> fst (add_ingredient sample_lower sample_collation sample_service
            (flour\<lparr>IngredientName := ''flour''\<rparr>) ''admin-token''
            (snd (add_ingredient sample_lower sample_collation sample_service flour
                   ''admin-token'' empty_db))) =
       Inl (HTTPException 409 ''Ingredient name already exists.'')"
proof -
  let ?d = "snd (add_ingredient sample_lower sample_collation sample_service flour
    ''admin-token'' empty_db)"
  note first = add_ingredient_conflict_or_created [OF sample_replies(1),
    where d = empty_db and ingredient = flour and unicode_lower = sample_lower
      and collation = sample_collation]
  have created: "fst (add_ingredient sample_lower sample_collation sample_service flour
      ''admin-token'' empty_db) = Inr (201, new_row sample_lower flour 1)"
    and stored: "Ingredients ?d = [new_row sample_lower flour 1]"
    using first by (simp_all add: sample_tables)
  note second = add_ingredient_conflict_or_created [OF sample_replies(1),
    where d = ?d and ingredient = "flour\<lparr>IngredientName := ''flour''\<rparr>"
      and unicode_lower = sample_lower and collation = sample_collation]
  have "\<exists>r\<in>set (Ingredients ?d).
      same_letters (IngredientName r) (IngredientName (flour\<lparr>IngredientName := ''flour''\<rparr>))"
    by (simp add: stored new_row_fields sample_requests sample_letters)
  with second sample_ignores_case
  have "fst (add_ingredient sample_lower sample_collation sample_service
      (flour\<lparr>IngredientName := ''flour''\<rparr>) ''admin-token'' ?d) =
       Inl (HTTPException 409 ''Ingredient name already exists.'')"
    by blast
  with created stored show ?thesis by blast
qed

text \<open>
  C4. For an accepted token and an update of identifier A: when the collation finds the
  submitted name equal to the name of a record with another identifier, as it does,
  ignoring case, for a name with the same letters in other case, the update fails with
  409 Conflict; where names are unique, updating a record to its own current name
  succeeds; without such a clash the update recomputes the status, overwrites every
  field of the records with identifier A and returns the updated record, and fails with
  404 Not Found when there is no record with identifier A after the write.
\<close>

theorem update_ingredient_outcomes:
  assumes "validate_token_and_roles user_service token [''admin'', ''manager'', ''staff''] = Inr ()"
  shows
    "((\<exists>r\<in>set (Ingredients d). IngredientID r \<noteq> ingredient_id
          \<and> collation (IngredientName r) (IngredientName ingredient)) \<longrightarrow>
        fst (update_ingredient unicode_lower collation user_service ingredient_id ingredient token d)
          = Inl (HTTPException 409 ''Ingredient name already exists.''))
     \<and> (ignores_case collation \<longrightarrow>
        (\<exists>r\<in>set (Ingredients d). IngredientID r \<noteq> ingredient_id
          \<and> same_letters (IngredientName r) (IngredientName ingredient)) \<longrightarrow>
        fst (update_ingredient unicode_lower collation user_service ingredient_id ingredient token d)
          = Inl (HTTPException 409 ''Ingredient name already exists.''))
     \<and> (names_unique collation (Ingredients d) \<longrightarrow>
          (\<forall>r\<in>set (Ingredients d).
             IngredientID r = ingredient_id \<and> IngredientName ingredient = IngredientName r \<longrightarrow>
             fst (update_ingredient unicode_lower collation user_service ingredient_id ingredient
                    token d) =
               Inr (200, new_row unicode_lower ingredient ingredient_id)))
     \<and> ((\<forall>r\<in>set (Ingredients d). IngredientID r \<noteq> ingredient_id \<longrightarrow>
            \<not> collation (IngredientName r) (IngredientName ingredient)) \<longrightarrow>
          ((\<exists>r\<in>set (Ingredients d). IngredientID r = ingredient_id) \<longrightarrow>
             fst (update_ingredient unicode_lower collation user_service ingredient_id ingredient
                    token d) =
               Inr (200, new_row unicode_lower ingredient ingredient_id)
             \<and> Ingredients (snd (update_ingredient unicode_lower collation user_service
                   ingredient_id ingredient token d)) =
                 map (\<lambda>r. if IngredientID r = ingredient_id
                          then new_row unicode_lower ingredient ingredient_id else r)
                   (Ingredients d))
          \<and> ((\<forall>r\<in>set (Ingredients d). IngredientID r \<noteq> ingredient_id) \<longrightarrow>
             fst (update_ingredient unicode_lower collation user_service ingredient_id ingredient
                    token d) =
               Inl (HTTPException 404 ''Ingredient not found'')
             \<and> Ingredients (snd (update_ingredient unicode_lower collation user_service
                   ingredient_id ingredient token d)) = Ingredients d))"
proof -
  let ?update =
    "update_ingredient unicode_lower collation user_service ingredient_id ingredient token d"
  let ?n = "new_row unicode_lower ingredient ingredient_id"
  note upd = update_ingredient_authorized
    [OF assms, of unicode_lower collation ingredient_id ingredient d]
  have conflict: "\<exists>r\<in>set (Ingredients d). IngredientID r \<noteq> ingredient_id
          \<and> collation (IngredientName r) (IngredientName ingredient) \<Longrightarrow>
        fst ?update = Inl (HTTPException 409 ''Ingredient name already exists.'')"
    unfolding upd by auto
  have letters: "ignores_case collation \<Longrightarrow>
      \<exists>r\<in>set (Ingredients d). IngredientID r \<noteq> ingredient_id
          \<and> same_letters (IngredientName r) (IngredientName ingredient) \<Longrightarrow>
      \<exists>r\<in>set (Ingredients d). IngredientID r \<noteq> ingredient_id
          \<and> collation (IngredientName r) (IngredientName ingredient)"
    unfolding ignores_case_def by blast
  have free: "\<forall>r\<in>set (Ingredients d). IngredientID r \<noteq> ingredient_id \<longrightarrow>
            \<not> collation (IngredientName r) (IngredientName ingredient) \<Longrightarrow>
      ?update =
      (if \<exists>r\<in>set (Ingredients d). IngredientID r = ingredient_id
       then (Inr (200, ?n),
            d\<lparr>Ingredients :=
                 map (\<lambda>r. if IngredientID r = ingredient_id then ?n else r) (Ingredients d),
              calls := calls d @ [Connect, Execute, Execute, Execute, Commit, Close]\<rparr>)
       else (Inl (HTTPException 404 ''Ingredient not found''),
            d\<lparr>calls := calls d @ [Connect, Execute, Execute, Execute, Close]\<rparr>))"
    unfolding upd by auto
  have own: "names_unique collation (Ingredients d) \<Longrightarrow> r \<in> set (Ingredients d) \<Longrightarrow>
      IngredientID r = ingredient_id \<Longrightarrow> IngredientName ingredient = IngredientName r \<Longrightarrow>
      fst ?update = Inr (200, ?n)" for r
  proof -
    assume u: "names_unique collation (Ingredients d)" and r: "r \<in> set (Ingredients d)"
      and i: "IngredientID r = ingredient_id" and n: "IngredientName ingredient = IngredientName r"
    have "\<forall>r'\<in>set (Ingredients d). IngredientID r' \<noteq> ingredient_id \<longrightarrow>
            \<not> collation (IngredientName r') (IngredientName ingredient)"
      using u r i n unfolding names_unique_iff by metis
    from free [OF this] r i show ?thesis by auto
  qed
  have found: "\<forall>r\<in>set (Ingredients d). IngredientID r \<noteq> ingredient_id \<longrightarrow>
            \<not> collation (IngredientName r) (IngredientName ingredient) \<Longrightarrow>
      \<exists>r\<in>set (Ingredients d). IngredientID r = ingredient_id \<Longrightarrow>
      fst ?update = Inr (200, ?n)
      \<and> Ingredients (snd ?update) =
          map (\<lambda>r. if IngredientID r = ingredient_id then ?n else r) (Ingredients d)"
    using free by simp
  have missing: "\<forall>r\<in>set (Ingredients d). IngredientID r \<noteq> ingredient_id \<longrightarrow>
            \<not> collation (IngredientName r) (IngredientName ingredient) \<Longrightarrow>
      \<forall>r\<in>set (Ingredients d). IngredientID r \<noteq> ingredient_id \<Longrightarrow>
      fst ?update = Inl (HTTPException 404 ''Ingredient not found'')
      \<and> Ingredients (snd ?update) = Ingredients d"
    using free by simp
  from conflict letters own found missing show ?thesis
    by blast
qed

text \<open>
  In the sample table, renaming Flour to ``sugar'' is a conflict, updating Flour under
  its own name succeeds, and identifier 7 is not found.
\<close>

theorem update_ingredient_outcomes_witness:
  "fst (update_ingredient sample_lower sample_collation sample_service 1
          (flour\<lparr>IngredientName := ''sugar''\<rparr>) ''admin-token'' pantry) =
     Inl (HTTPException 409 ''Ingredient name already exists.'')
   \<and> names_unique sample_collation (Ingredients pantry)
   \<and> fst (update_ingredient sample_lower sample_collation sample_service 1
          (flour\<lparr>Amount := Finite 0.2\<rparr>) ''admin-token'' pantry) =
       Inr (200, new_row sample_lower (flour\<lparr>Amount := Finite 0.2\<rparr>) 1)
   \<and> Ingredients (snd (update_ingredient sample_lower sample_collation sample_service 1
          (flour\<lparr>Amount := Finite 0.2\<rparr>) ''admin-token'' pantry)) =
       [new_row sample_lower (flour\<lparr>Amount := Finite 0.2\<rparr>) 1, new_row sample_lower sugar 2]
   \<and> fst (update_ingredient sample_lower sample_collation sample_service 7
          (flour\<lparr>IngredientName := ''Rice''\<rparr>) ''admin-token'' pantry) =
       Inl (HTTPException 404 ''Ingredient not found'')
   \<and> Ingredients (snd (update_ingredient sample_lower sample_collation sample_service 7
          (flour\<lparr>IngredientName := ''Rice''\<rparr>) ''admin-token'' pantry)) = Ingredients pantry"
proof -
  let ?clash = "flour\<lparr>IngredientName := ''sugar''\<rparr>"
  let ?less = "flour\<lparr>Amount := Finite 0.2\<rparr>"
  let ?rice = "flour\<lparr>IngredientName := ''Rice''\<rparr>"
  note outcomes = update_ingredient_outcomes [OF sample_replies(1),
    where unicode_lower = sample_lower and collation = sample_collation and d = pantry]
  have names: "IngredientName ?clash = ''sugar''" "IngredientName ?less = ''Flour''"
    "IngredientName ?rice = ''Rice''"
    by (simp_all add: flour_def)
  have unique: "names_unique sample_collation (Ingredients pantry)"
    by (simp add: names_unique_def sample_tables new_row_fields sample_requests
        sample_collation_def sample_letters)
  have "\<exists>r\<in>set (Ingredients pantry). IngredientID r \<noteq> 1
      \<and> same_letters (IngredientName r) (IngredientName ?clash)"
    by (simp add: sample_tables new_row_fields sample_requests names sample_letters)
  with outcomes [where ingredient_id = 1 and ingredient = ?clash] sample_ignores_case
  have conflict: "fst (update_ingredient sample_lower sample_collation sample_service 1 ?clash
      ''admin-token'' pantry) = Inl (HTTPException 409 ''Ingredient name already exists.'')"
    by blast
  have own: "fst (update_ingredient sample_lower sample_collation sample_service 1 ?less
      ''admin-token'' pantry) = Inr (200, new_row sample_lower ?less 1)"
    using outcomes [where ingredient_id = 1 and ingredient = ?less] unique
    by (simp add: sample_tables new_row_fields sample_requests names)
  have written: "Ingredients (snd (update_ingredient sample_lower sample_collation sample_service 1
      ?less ''admin-token'' pantry)) = [new_row sample_lower ?less 1, new_row sample_lower sugar 2]"
    using outcomes [where ingredient_id = 1 and ingredient = ?less]
    by (simp add: sample_tables new_row_fields sample_requests names sample_collation_def
        sample_letters)
  have missing: "fst (update_ingredient sample_lower sample_collation sample_service 7 ?rice
      ''admin-token'' pantry) = Inl (HTTPException 404 ''Ingredient not found'')
     \<and> Ingredients (snd (update_ingredient sample_lower sample_collation sample_service 7 ?rice
      ''admin-token'' pantry)) = Ingredients pantry"
    using outcomes [where ingredient_id = 7 and ingredient = ?rice]
    by (simp add: sample_tables new_row_fields sample_requests names sample_collation_def
        sample_letters)
  from conflict unique own written missing show ?thesis by blast
qed

text \<open>
  C5. The claim: delete removes the record with the given identifier and fails with 404
  Not Found exactly when no row was affected. The code does not: with an accepted token,
  deleting the missing identifier 7 from the sample table raises \<^verbatim>\<open>TypeError\<close> where
  the claim has Not Found, and deleting the identifier 1 removes and commits the record
  and then raises \<^verbatim>\<open>TypeError\<close> where the claim has the confirmation; the connection is
  not closed. The other three endpoints call \<^verbatim>\<open>conn.close()\<close>.
\<close>

theorem delete_ingredient_raises_type_error:
  "delete_ingredient sample_service 7 ''admin-token'' pantry =
     (Inl (Unhandled ''TypeError''), pantry\<lparr>calls := [Connect, Execute]\<rparr>)
   \<and> delete_ingredient sample_service 1 ''admin-token'' pantry =
     (Inl (Unhandled ''TypeError''),
      pantry\<lparr>Ingredients := [new_row sample_lower sugar 2],
             calls := [Connect, Execute, Commit]\<rparr>)"
  by (simp add: delete_ingredient_authorized [OF sample_replies(1)] sample_tables new_row_fields)

text \<open>
  C2. Every record a create or an update writes has as its status the classifier's value
  for the amount and the unit submitted in that same request. A request has no status
  field (\<^typ>\<open>IngredientCreate\<close>), so a client cannot set the status; it is computed
  again on every create and update.
\<close>

theorem stored_status_is_classified:
  "(add_ingredient unicode_lower collation user_service ingredient token d
      = (Inr (code, out), d') \<longrightarrow>
      Ingredients d' = Ingredients d @ [out]
      \<and> Amount out = Amount ingredient \<and> Measurement out = Measurement ingredient
      \<and> Status out = get_status unicode_lower (Amount ingredient) (Some (Measurement ingredient)))
   \<and> (update_ingredient unicode_lower collation user_service ingredient_id ingredient token d
      = (Inr (code, out), d') \<longrightarrow>
      Ingredients d' = map (\<lambda>r. if IngredientID r = ingredient_id then out else r) (Ingredients d)
      \<and> Amount out = Amount ingredient \<and> Measurement out = Measurement ingredient
      \<and> Status out = get_status unicode_lower (Amount ingredient) (Some (Measurement ingredient)))"
proof (cases rule: validated_cases [of user_service token "[''admin'', ''manager'', ''staff'']"])
  case (1 e)
  then show ?thesis
    by (simp add: rejected_before_database)
next
  case 2
  have created: "add_ingredient unicode_lower collation user_service ingredient token d
        = (Inr (code, out), d') \<Longrightarrow>
      Ingredients d' = Ingredients d @ [out]
      \<and> Amount out = Amount ingredient \<and> Measurement out = Measurement ingredient
      \<and> Status out = get_status unicode_lower (Amount ingredient) (Some (Measurement ingredient))"
    unfolding add_ingredient_authorized [OF 2]
    by (auto simp: new_row_fields split: if_splits)
  have updated: "update_ingredient unicode_lower collation user_service ingredient_id ingredient
        token d = (Inr (code, out), d') \<Longrightarrow>
      Ingredients d' = map (\<lambda>r. if IngredientID r = ingredient_id then out else r) (Ingredients d)
      \<and> Amount out = Amount ingredient \<and> Measurement out = Measurement ingredient
      \<and> Status out = get_status unicode_lower (Amount ingredient) (Some (Measurement ingredient))"
    unfolding update_ingredient_authorized [OF 2]
    by (auto simp: new_row_fields split: if_splits)
  from created updated show ?thesis by blast
qed

text \<open>
  Creating 0.3 KG of sugar stores ``Low Stock''; updating it to amount 0 stores
  ``Not Available''.
\<close>

theorem stored_status_is_classified_witness:
  "add_ingredient sample_lower sample_collation sample_service sugar ''admin-token'' empty_db =
     (Inr (201, new_row sample_lower sugar 1),
      \<lparr>Ingredients = [new_row sample_lower sugar 1], last_id = 1,
       calls = [Connect, Execute, Execute, Commit, Close]\<rparr>)
   \<and> Status (new_row sample_lower sugar 1) = get_status sample_lower (Finite 0.3) (Some ''KG'')
   \<and> get_status sample_lower (Finite 0.3) (Some ''KG'') = ''Low Stock''
   \<and> update_ingredient sample_lower sample_collation sample_service 2
        (sugar\<lparr>Amount := Finite 0\<rparr>) ''admin-token'' pantry =
     (Inr (200, new_row sample_lower (sugar\<lparr>Amount := Finite 0\<rparr>) 2),
      \<lparr>Ingredients =
         [new_row sample_lower flour 1, new_row sample_lower (sugar\<lparr>Amount := Finite 0\<rparr>) 2],
       last_id = 2, calls = [Connect, Execute, Execute, Execute, Commit, Close]\<rparr>)
   \<and> Status (new_row sample_lower (sugar\<lparr>Amount := Finite 0\<rparr>) 2) =
       get_status sample_lower (Finite 0) (Some ''KG'')
   \<and> get_status sample_lower (Finite 0) (Some ''KG'') = ''Not Available''"
proof -
  let ?d1 = "\<lparr>Ingredients = [new_row sample_lower sugar 1], last_id = 1,
       calls = [Connect, Execute, Execute, Commit, Close]\<rparr>"
  let ?zero = "sugar\<lparr>Amount := Finite 0\<rparr>"
  let ?d2 = "\<lparr>Ingredients = [new_row sample_lower flour 1, new_row sample_lower ?zero 2],
       last_id = 2, calls = [Connect, Execute, Execute, Execute, Commit, Close]\<rparr>"
  have created: "add_ingredient sample_lower sample_collation sample_service sugar ''admin-token''
      empty_db = (Inr (201, new_row sample_lower sugar 1), ?d1)"
    by (simp add: add_ingredient_authorized [OF sample_replies(1)] sample_tables)
  have name: "IngredientName ?zero = ''Sugar''"
    by (simp add: sugar_def)
  have updated: "update_ingredient sample_lower sample_collation sample_service 2 ?zero
      ''admin-token'' pantry = (Inr (200, new_row sample_lower ?zero 2), ?d2)"
    by (simp add: update_ingredient_authorized [OF sample_replies(1)] sample_tables
        new_row_fields sample_requests name pantry_def sample_collation_def sample_letters)
  have amounts: "Amount ?zero = Finite 0" "Measurement ?zero = ''KG''"
    by (simp_all add: sugar_def)
  have low: "get_status sample_lower (Finite 0.3) (Some ''KG'') = ''Low Stock''"
    and none: "get_status sample_lower (Finite 0) (Some ''KG'') = ''Not Available''"
    by (simp_all add: get_status_def lower_units thresholds_lookup)
  from stored_status_is_classified
    [where unicode_lower = sample_lower and collation = sample_collation
       and user_service = sample_service and ingredient = sugar and token = "''admin-token''"
       and d = empty_db and code = 201 and out = "new_row sample_lower sugar 1" and d' = ?d1]
    created
  have first: "Status (new_row sample_lower sugar 1) =
      get_status sample_lower (Finite 0.3) (Some ''KG'')"
    by (simp add: sample_requests)
  from stored_status_is_classified
    [where unicode_lower = sample_lower and collation = sample_collation
       and user_service = sample_service and ingredient = ?zero and token = "''admin-token''"
       and d = pantry and code = 200 and out = "new_row sample_lower ?zero 2" and d' = ?d2
       and ingredient_id = 2]
    updated
  have second: "Status (new_row sample_lower ?zero 2) =
      get_status sample_lower (Finite 0) (Some ''KG'')"
    by (simp add: amounts)
  from created updated first second low none show ?thesis by blast
qed

lemma cashier_replies:
  assumes "user_service token = Response r" and "is_success r"
    and "json r = JsonObject user_data" and "user_data ''userRole'' = Some (PyStr ''cashier'')"
  shows "validate_token_and_roles user_service token
           [''admin'', ''manager'', ''staff'', ''cashier''] = Inr ()"
    and "validate_token_and_roles user_service token [''admin'', ''manager'', ''staff''] =
           Inl (HTTPException 403
                 (''Access denied. Required role not met. User has role: '' @
                  [CHR 0x27] @ ''cashier'' @ [CHR 0x27]))"
  using assms by (simp_all add: validate_token_and_roles_def dict_get_def)

text \<open>
  C8. Every operation validates the token before it touches the database: the list
  operation with the roles admin, manager, staff and cashier, and create, update and
  delete with admin, manager and staff. A refused token leaves the database untouched,
  with no call made on it; an accepted one is followed by the connection. So a cashier
  can list the ingredients, and every write of a cashier fails with 403 Forbidden.
\<close>

theorem token_validated_first:
  "get_all_ingredients user_service token d =
     (case validate_token_and_roles user_service token
             [''admin'', ''manager'', ''staff'', ''cashier''] of
        Inl e \<Rightarrow> (Inl e, d)
      | Inr u \<Rightarrow> (Inr (200, Ingredients d), d\<lparr>calls := calls d @ [Connect, Execute, Close]\<rparr>))
   \<and> (validate_token_and_roles user_service token [''admin'', ''manager'', ''staff''] = Inl e \<longrightarrow>
        add_ingredient unicode_lower collation user_service ingredient token d = (Inl e, d)
        \<and> update_ingredient unicode_lower collation user_service ingredient_id ingredient token d
            = (Inl e, d)
        \<and> delete_ingredient user_service ingredient_id token d = (Inl e, d))
   \<and> (validate_token_and_roles user_service token [''admin'', ''manager'', ''staff''] = Inr () \<longrightarrow>
        (\<exists>ks. calls (snd (add_ingredient unicode_lower collation user_service ingredient token d))
                = calls d @ Connect # ks)
        \<and> (\<exists>ks. calls (snd (update_ingredient unicode_lower collation user_service ingredient_id
                              ingredient token d)) =
                calls d @ Connect # ks)
        \<and> (\<exists>ks. calls (snd (delete_ingredient user_service ingredient_id token d)) =
                calls d @ Connect # ks))
   \<and> (user_service token = Response r \<and> is_success r \<and> json r = JsonObject user_data
        \<and> user_data ''userRole'' = Some (PyStr ''cashier'') \<longrightarrow>
        fst (get_all_ingredients user_service token d) = Inr (200, Ingredients d)
        \<and> add_ingredient unicode_lower collation user_service ingredient token d =
            (Inl (HTTPException 403
                   (''Access denied. Required role not met. User has role: '' @
                    [CHR 0x27] @ ''cashier'' @ [CHR 0x27])), d)
        \<and> update_ingredient unicode_lower collation user_service ingredient_id ingredient token d =
            (Inl (HTTPException 403
                   (''Access denied. Required role not met. User has role: '' @
                    [CHR 0x27] @ ''cashier'' @ [CHR 0x27])), d)
        \<and> delete_ingredient user_service ingredient_id token d =
            (Inl (HTTPException 403
                   (''Access denied. Required role not met. User has role: '' @
                    [CHR 0x27] @ ''cashier'' @ [CHR 0x27])), d))"
proof -
  let ?add = "add_ingredient unicode_lower collation user_service ingredient token d"
  let ?update =
    "update_ingredient unicode_lower collation user_service ingredient_id ingredient token d"
  let ?delete = "delete_ingredient user_service ingredient_id token d"
  let ?denied = "HTTPException 403
                   (''Access denied. Required role not met. User has role: '' @
                    [CHR 0x27] @ ''cashier'' @ [CHR 0x27])"
  have reading: "get_all_ingredients user_service token d =
     (case validate_token_and_roles user_service token
             [''admin'', ''manager'', ''staff'', ''cashier''] of
        Inl e \<Rightarrow> (Inl e, d)
      | Inr u \<Rightarrow> (Inr (200, Ingredients d), d\<lparr>calls := calls d @ [Connect, Execute, Close]\<rparr>))"
    by (simp add: get_all_ingredients_def db_defs split: sum.splits)
  have refused: "validate_token_and_roles user_service token [''admin'', ''manager'', ''staff'']
        = Inl e \<Longrightarrow> ?add = (Inl e, d) \<and> ?update = (Inl e, d) \<and> ?delete = (Inl e, d)" for e
    by (simp add: rejected_before_database)
  have accepted: "validate_token_and_roles user_service token [''admin'', ''manager'', ''staff'']
        = Inr () \<Longrightarrow>
        (\<exists>ks. calls (snd ?add) = calls d @ Connect # ks)
        \<and> (\<exists>ks. calls (snd ?update) = calls d @ Connect # ks)
        \<and> (\<exists>ks. calls (snd ?delete) = calls d @ Connect # ks)"
    by (simp add: add_ingredient_authorized update_ingredient_authorized
        delete_ingredient_authorized)
  have cashier: "user_service token = Response r \<and> is_success r \<and> json r = JsonObject user_data
        \<and> user_data ''userRole'' = Some (PyStr ''cashier'') \<Longrightarrow>
        fst (get_all_ingredients user_service token d) = Inr (200, Ingredients d)
        \<and> ?add = (Inl ?denied, d) \<and> ?update = (Inl ?denied, d) \<and> ?delete = (Inl ?denied, d)"
    using cashier_replies [of user_service token r user_data]
    by (simp add: rejected_before_database get_all_ingredients_authorized)
  from reading refused accepted cashier show ?thesis by blast
qed

text \<open>
  The sample cashier lists the table and is refused each write; with the identity
  service down, delete fails with 503 and the table is untouched.
\<close>

theorem token_validated_first_witness:
  "fst (get_all_ingredients sample_service ''cashier-token'' pantry) =
     Inr (200, [new_row sample_lower flour 1, new_row sample_lower sugar 2])
   \<and> add_ingredient sample_lower sample_collation sample_service flour ''cashier-token'' pantry =
       (Inl (HTTPException 403
              (''Access denied. Required role not met. User has role: '' @
               [CHR 0x27] @ ''cashier'' @ [CHR 0x27])), pantry)
   \<and> update_ingredient sample_lower sample_collation sample_service 1 flour ''cashier-token''
       pantry =
       (Inl (HTTPException 403
              (''Access denied. Required role not met. User has role: '' @
               [CHR 0x27] @ ''cashier'' @ [CHR 0x27])), pantry)
   \<and> delete_ingredient sample_service 1 ''cashier-token'' pantry =
       (Inl (HTTPException 403
              (''Access denied. Required role not met. User has role: '' @
               [CHR 0x27] @ ''cashier'' @ [CHR 0x27])), pantry)
   \<and> delete_ingredient sample_service 1 ''some-token'' pantry =
       (Inl (HTTPException 503
              ''Ingredients Auth service unavailable: All connection attempts failed''), pantry)
   \<and> calls (snd (delete_ingredient sample_service 1 ''admin-token'' pantry)) =
       [Connect, Execute, Commit]"
proof -
  let ?d = "[''userRole'' \<mapsto> PyStr ''cashier'']"
  let ?r = "\<lparr>status_code = 200, json = JsonObject ?d, text_body = ''{userRole: cashier}''\<rparr>"
  let ?denied = "HTTPException 403
              (''Access denied. Required role not met. User has role: '' @
               [CHR 0x27] @ ''cashier'' @ [CHR 0x27])"
  let ?down = "HTTPException 503
    ''Ingredients Auth service unavailable: All connection attempts failed''"
  have reply: "sample_service ''cashier-token'' = Response ?r"
    by (simp add: sample_service_def)
  have ok: "is_success ?r"
    by (simp add: is_success_def)
  have body: "json ?r = JsonObject ?d"
    by simp
  have role: "?d ''userRole'' = Some (PyStr ''cashier'')"
    by simp
  note cashier = token_validated_first
    [where user_service = sample_service and token = "''cashier-token''" and d = pantry
       and e = "Unhandled []" and ingredient = flour and ingredient_id = 1 and r = ?r
       and user_data = ?d and unicode_lower = sample_lower and collation = sample_collation]
  from cashier reply ok body role
  have listed: "fst (get_all_ingredients sample_service ''cashier-token'' pantry) =
     Inr (200, Ingredients pantry)"
    and writes: "add_ingredient sample_lower sample_collation sample_service flour
        ''cashier-token'' pantry = (Inl ?denied, pantry)
      \<and> update_ingredient sample_lower sample_collation sample_service 1 flour
        ''cashier-token'' pantry = (Inl ?denied, pantry)
      \<and> delete_ingredient sample_service 1 ''cashier-token'' pantry = (Inl ?denied, pantry)"
    by blast+
  from listed
  have reads: "fst (get_all_ingredients sample_service ''cashier-token'' pantry) =
     Inr (200, [new_row sample_lower flour 1, new_row sample_lower sugar 2])"
    by (simp add: sample_tables)
  have down: "validate_token_and_roles sample_service ''some-token''
      [''admin'', ''manager'', ''staff''] = Inl ?down"
    by (simp add: validate_token_and_roles_def sample_service_def)
  from token_validated_first
    [where user_service = sample_service and token = "''some-token''" and d = pantry
       and e = ?down and ingredient = flour and ingredient_id = 1
       and unicode_lower = sample_lower and collation = sample_collation] down
  have unreachable: "delete_ingredient sample_service 1 ''some-token'' pantry =
       (Inl ?down, pantry)"
    by simp
  have trace: "calls (snd (delete_ingredient sample_service 1 ''admin-token'' pantry)) =
       [Connect, Execute, Commit]"
    by (simp add: delete_ingredient_authorized [OF sample_replies(1)] sample_tables
        new_row_fields)
  from reads writes unreachable trace show ?thesis by blast
qed

text \<open>
  C9. An update that fails, with Conflict, with Not Found or with any other error, has
  issued no commit before the error, and leaves the persisted table as it was; the same
  holds of a create that fails.
\<close>

theorem failed_write_commits_nothing:
  "(update_ingredient unicode_lower collation user_service ingredient_id ingredient token d
      = (Inl e, d') \<longrightarrow>
      Ingredients d' = Ingredients d
      \<and> (\<exists>ks. calls d' = calls d @ ks \<and> Commit \<notin> set ks))
   \<and> (add_ingredient unicode_lower collation user_service ingredient token d = (Inl e, d') \<longrightarrow>
      Ingredients d' = Ingredients d
      \<and> (\<exists>ks. calls d' = calls d @ ks \<and> Commit \<notin> set ks))"
proof (cases rule: validated_cases [of user_service token "[''admin'', ''manager'', ''staff'']"])
  case (1 e')
  then show ?thesis
    by (auto simp add: rejected_before_database)
next
  case 2
  have updating: "update_ingredient unicode_lower collation user_service ingredient_id ingredient
        token d = (Inl e, d') \<Longrightarrow>
      Ingredients d' = Ingredients d
      \<and> (\<exists>ks. calls d' = calls d @ ks \<and> Commit \<notin> set ks)"
    unfolding update_ingredient_authorized [OF 2]
    by (auto split: if_splits)
  have creating: "add_ingredient unicode_lower collation user_service ingredient token d
        = (Inl e, d') \<Longrightarrow>
      Ingredients d' = Ingredients d
      \<and> (\<exists>ks. calls d' = calls d @ ks \<and> Commit \<notin> set ks)"
    unfolding add_ingredient_authorized [OF 2]
    by (auto split: if_splits)
  from updating creating show ?thesis by blast
qed

text \<open>
  In the sample table a clashing rename, an update of the missing identifier 7 and a
  create of ``flour'' fail after one or three statements and a close, with no commit.
\<close>

theorem failed_write_commits_nothing_witness:
  "update_ingredient sample_lower sample_collation sample_service 1
       (flour\<lparr>IngredientName := ''sugar''\<rparr>) ''admin-token'' pantry =
     (Inl (HTTPException 409 ''Ingredient name already exists.''),
      pantry\<lparr>calls := [Connect, Execute, Close]\<rparr>)
   \<and> update_ingredient sample_lower sample_collation sample_service 7
       (flour\<lparr>IngredientName := ''Rice''\<rparr>) ''admin-token'' pantry =
     (Inl (HTTPException 404 ''Ingredient not found''),
      pantry\<lparr>calls := [Connect, Execute, Execute, Execute, Close]\<rparr>)
   \<and> add_ingredient sample_lower sample_collation sample_service
       (flour\<lparr>IngredientName := ''flour''\<rparr>) ''admin-token'' pantry =
     (Inl (HTTPException 409 ''Ingredient name already exists.''),
      pantry\<lparr>calls := [Connect, Execute, Close]\<rparr>)
   \<and> Ingredients (snd (update_ingredient sample_lower sample_collation sample_service 1
         (flour\<lparr>IngredientName := ''sugar''\<rparr>) ''admin-token'' pantry)) = Ingredients pantry
   \<and> Ingredients (snd (update_ingredient sample_lower sample_collation sample_service 7
         (flour\<lparr>IngredientName := ''Rice''\<rparr>) ''admin-token'' pantry)) = Ingredients pantry
   \<and> Ingredients (snd (add_ingredient sample_lower sample_collation sample_service
         (flour\<lparr>IngredientName := ''flour''\<rparr>) ''admin-token'' pantry)) = Ingredients pantry"
proof -
  let ?clash = "flour\<lparr>IngredientName := ''sugar''\<rparr>"
  let ?rice = "flour\<lparr>IngredientName := ''Rice''\<rparr>"
  let ?again = "flour\<lparr>IngredientName := ''flour''\<rparr>"
  let ?conflict = "HTTPException 409 ''Ingredient name already exists.''"
  let ?missing = "HTTPException 404 ''Ingredient not found''"
  let ?d1 = "pantry\<lparr>calls := [Connect, Execute, Close]\<rparr>"
  let ?d2 = "pantry\<lparr>calls := [Connect, Execute, Execute, Execute, Close]\<rparr>"
  have clash: "update_ingredient sample_lower sample_collation sample_service 1 ?clash
      ''admin-token'' pantry = (Inl ?conflict, ?d1)"
    by (simp add: update_ingredient_authorized [OF sample_replies(1)] sample_tables
        new_row_fields sample_requests sample_collation_def sample_letters)
  have rice: "update_ingredient sample_lower sample_collation sample_service 7 ?rice
      ''admin-token'' pantry = (Inl ?missing, ?d2)"
    by (simp add: update_ingredient_authorized [OF sample_replies(1)] sample_tables
        new_row_fields sample_requests sample_collation_def sample_letters)
  have again: "add_ingredient sample_lower sample_collation sample_service ?again
      ''admin-token'' pantry = (Inl ?conflict, ?d1)"
    by (simp add: add_ingredient_authorized [OF sample_replies(1)] sample_tables
        new_row_fields sample_requests sample_collation_def sample_letters)
  note untouched = failed_write_commits_nothing
    [where unicode_lower = sample_lower and collation = sample_collation
       and user_service = sample_service and token = "''admin-token''" and d = pantry]
  from untouched [where ingredient_id = 1 and ingredient = ?clash and e = ?conflict and d' = ?d1]
    clash
  have first: "Ingredients ?d1 = Ingredients pantry
      \<and> (\<exists>ks. calls ?d1 = calls pantry @ ks \<and> Commit \<notin> set ks)"
    by blast
  have kept1: "Ingredients (snd (update_ingredient sample_lower sample_collation sample_service 1
      ?clash ''admin-token'' pantry)) = Ingredients pantry"
    unfolding clash snd_conv using first by (rule conjunct1)
  from untouched [where ingredient_id = 7 and ingredient = ?rice and e = ?missing and d' = ?d2]
    rice
  have second: "Ingredients ?d2 = Ingredients pantry
      \<and> (\<exists>ks. calls ?d2 = calls pantry @ ks \<and> Commit \<notin> set ks)"
    by blast
  have kept2: "Ingredients (snd (update_ingredient sample_lower sample_collation sample_service 7
      ?rice ''admin-token'' pantry)) = Ingredients pantry"
    unfolding rice snd_conv using second by (rule conjunct1)
  from untouched [where ingredient_id = 0 and ingredient = ?again and e = ?conflict and d' = ?d1]
    again
  have third: "Ingredients ?d1 = Ingredients pantry
      \<and> (\<exists>ks. calls ?d1 = calls pantry @ ks \<and> Commit \<notin> set ks)"
    by blast
  have kept3: "Ingredients (snd (add_ingredient sample_lower sample_collation sample_service
      ?again ''admin-token'' pantry)) = Ingredients pantry"
    unfolding again snd_conv using third by (rule conjunct1)
  from clash rice again kept1 kept2 kept3 show ?thesis by blast
qed

section \<open>Unique names are kept\<close>

text \<open>
  The hypothesis of unique names in the update property holds of every table the
  operations produce from a table with unique names, one call after the other, under a
  collation that finds \<open>b\<close> equal to \<open>a\<close> when it finds \<open>a\<close> equal to \<open>b\<close>: create
  appends a name that matches none, update overwrites the records of one identifier with
  a name that matches no other record, delete removes rows.
\<close>

lemma names_unique_append:
  assumes "names_unique collation rows"
    and "\<And>a b. collation a b \<Longrightarrow> collation b a"
    and "\<forall>r\<in>set rows. \<not> collation (IngredientName r) (IngredientName n)"
  shows "names_unique collation (rows @ [n])"
  unfolding names_unique_iff
proof (intro ballI impI)
  fix r r'
  assume r: "r \<in> set (rows @ [n])" and r': "r' \<in> set (rows @ [n])"
    and same: "collation (IngredientName r) (IngredientName r')"
  from r have r_cases: "r = n \<or> r \<in> set rows" by auto
  from r' have r'_cases: "r' = n \<or> r' \<in> set rows" by auto
  from r_cases r'_cases same assms show "IngredientID r = IngredientID r'"
    unfolding names_unique_iff by metis
qed

lemma names_unique_overwrite:
  assumes "names_unique collation rows" and "IngredientID n = a"
    and "\<And>a b. collation a b \<Longrightarrow> collation b a"
    and "\<forall>r\<in>set rows. IngredientID r \<noteq> a \<longrightarrow>
           \<not> collation (IngredientName r) (IngredientName n)"
  shows "names_unique collation (map (\<lambda>r. if IngredientID r = a then n else r) rows)"
proof -
  let ?rows' = "map (\<lambda>r. if IngredientID r = a then n else r) rows"
  have member: "r \<in> set ?rows' \<Longrightarrow> r = n \<or> (r \<in> set rows \<and> IngredientID r \<noteq> a)" for r
    by auto
  show ?thesis
    unfolding names_unique_iff
  proof (intro ballI impI)
    fix r r'
    assume r: "r \<in> set ?rows'" and r': "r' \<in> set ?rows'"
      and same: "collation (IngredientName r) (IngredientName r')"
    from member [OF r] member [OF r'] same assms
    show "IngredientID r = IngredientID r'"
      unfolding names_unique_iff by metis
  qed
qed

lemma names_unique_filter:
  assumes "names_unique collation rows"
  shows "names_unique collation (filter p rows)"
  using assms unfolding names_unique_iff by simp

lemma names_unique_add_ingredient:
  assumes "names_unique collation (Ingredients d)"
    and sym: "\<And>a b. collation a b \<Longrightarrow> collation b a"
  shows "names_unique collation
    (Ingredients (snd (add_ingredient unicode_lower collation user_service ingredient token d)))"
proof (cases rule: validated_cases [of user_service token "[''admin'', ''manager'', ''staff'']"])
  case (1 e)
  with assms show ?thesis
    by (simp add: rejected_before_database)
next
  case 2
  let ?add = "add_ingredient unicode_lower collation user_service ingredient token d"
  show ?thesis
  proof (cases "\<exists>r\<in>set (Ingredients d).
      collation (IngredientName r) (IngredientName ingredient)")
    case True
    then have "Ingredients (snd ?add) = Ingredients d"
      by (simp add: add_ingredient_authorized [OF 2])
    with assms show ?thesis by simp
  next
    case False
    then have "Ingredients (snd ?add) =
        Ingredients d @ [new_row unicode_lower ingredient (last_id d + 1)]"
      by (simp add: add_ingredient_authorized [OF 2])
    moreover from False
    have "\<forall>r\<in>set (Ingredients d). \<not> collation (IngredientName r)
        (IngredientName (new_row unicode_lower ingredient (last_id d + 1)))"
      by (simp add: new_row_fields)
    ultimately show ?thesis
      using names_unique_append [OF assms(1) sym] by simp
  qed
qed

lemma names_unique_update_ingredient:
  assumes "names_unique collation (Ingredients d)"
    and sym: "\<And>a b. collation a b \<Longrightarrow> collation b a"
  shows "names_unique collation
    (Ingredients (snd (update_ingredient unicode_lower collation user_service ingredient_id
       ingredient token d)))"
proof (cases rule: validated_cases [of user_service token "[''admin'', ''manager'', ''staff'']"])
  case (1 e)
  with assms show ?thesis
    by (simp add: rejected_before_database)
next
  case 2
  let ?n = "new_row unicode_lower ingredient ingredient_id"
  let ?update =
    "update_ingredient unicode_lower collation user_service ingredient_id ingredient token d"
  show ?thesis
  proof (cases "(\<forall>r\<in>set (Ingredients d). IngredientID r \<noteq> ingredient_id \<longrightarrow>
           \<not> collation (IngredientName r) (IngredientName ingredient))
      \<and> (\<exists>r\<in>set (Ingredients d). IngredientID r = ingredient_id)")
    case True
    then have "Ingredients (snd ?update) =
        map (\<lambda>r. if IngredientID r = ingredient_id then ?n else r) (Ingredients d)"
      unfolding update_ingredient_authorized [OF 2] by auto
    moreover from True
    have "\<forall>r\<in>set (Ingredients d). IngredientID r \<noteq> ingredient_id \<longrightarrow>
           \<not> collation (IngredientName r) (IngredientName ?n)"
      by (simp add: new_row_fields)
    ultimately show ?thesis
      using names_unique_overwrite [OF assms(1) new_row_fields(2) sym] by simp
  next
    case False
    then have "Ingredients (snd ?update) = Ingredients d"
      unfolding update_ingredient_authorized [OF 2] by auto
    with assms show ?thesis by simp
  qed
qed

lemma names_unique_delete_ingredient:
  assumes "names_unique collation (Ingredients d)"
  shows "names_unique collation
    (Ingredients (snd (delete_ingredient user_service ingredient_id token d)))"
proof (cases rule: validated_cases [of user_service token "[''admin'', ''manager'', ''staff'']"])
  case (1 e)
  with assms show ?thesis
    by (simp add: rejected_before_database)
next
  case 2
  show ?thesis
    using assms names_unique_filter [OF assms]
    by (simp add: delete_ingredient_authorized [OF 2])
qed

end
